theory Spec2Isabelle
  imports Main "HOL-Library.AList"
begin

section \<open>Go values\<close>

text \<open>
  A Go \<open>map[string]V\<close> is an association list with pairwise distinct keys. A lookup
  reads it through \<open>map_of\<close>, an assignment \<open>m[k] = v\<close> is \<open>AList.update k v m\<close>, and a
  \<open>range\<close> loop walks the list from its head: Go leaves the order of a \<open>range\<close> over a
  map unspecified, so the order of the list is the order one run happens to take. The
  nil map and the empty map are both \<open>[]\<close> (they read alike). Values of type
  \<open>interface{}\<close> are values of a type parameter \<open>'a\<close>.
\<close>

type_synonym 'v gomap = "(string \<times> 'v) list"

definition wf_map :: "'v gomap \<Rightarrow> bool" where
  "wf_map m = distinct (map fst m)"

text \<open>\<open>m[k]\<close> on a \<open>map[string]string\<close>: the zero value \<open>""\<close> when the key is absent.\<close>

definition index_str :: "string gomap \<Rightarrow> string \<Rightarrow> string" where
  "index_str m k = (case map_of m k of None \<Rightarrow> '''' | Some v \<Rightarrow> v)"

text \<open>\<open>strings.Join(elems, sep)\<close>.\<close>

fun Join :: "string list \<Rightarrow> string \<Rightarrow> string" where
  "Join [] sep = ''''"
| "Join [x] sep = x"
| "Join (x # y # ys) sep = x @ sep @ Join (y # ys) sep"

section \<open>Package config\<close>

record 'a VariableRule =
  When :: "string gomap"
  Then :: "'a gomap"

record 'a TargetConfig =
  ID :: string
  Name :: string
  Tags :: "string gomap"
  Labels :: "string gomap"
  DriverCmd :: string
  Visual :: "string gomap"
  Variables :: "'a gomap"

text \<open>The \<open>Variables\<close> field of \<open>Config\<close> is \<open>Rules\<close> here: a record field is a constant,
  and \<open>Variables\<close> is the field of \<open>TargetConfig\<close>.\<close>

record 'a Config =
  GroupBy :: "string list"
  Targets :: "'a TargetConfig list"
  Rules :: "'a VariableRule list"

definition DefaultGroupBy :: "string list" where
  "DefaultGroupBy = [''environment'', ''region'', ''name'']"

text \<open>
  The errors of loading. \<open>ReadError\<close> stands for what \<open>os.ReadFile\<close> or
  \<open>json.Unmarshal\<close> returned; the other three are the \<open>fmt.Errorf\<close> values of
  \<open>Validate\<close>: "target missing required 'id' field", "duplicate target ID %q detected -
  IDs must be unique" and "target %q missing required 'driver_cmd'", each with the id it
  formats.
\<close>

datatype config_error =
    ReadError string
  | MissingID
  | DuplicateID string
  | MissingDriverCmd string

text \<open>The loop of \<open>Validate\<close>; \<open>seenIDs\<close> is the set of keys stored with \<open>true\<close>.\<close>

fun Validate_loop :: "string set \<Rightarrow> 'a TargetConfig list \<Rightarrow> config_error option" where
  "Validate_loop seenIDs [] = None"
| "Validate_loop seenIDs (t # ts) =
     (if ID t = '''' then Some MissingID
      else if ID t \<in> seenIDs then Some (DuplicateID (ID t))
      else if DriverCmd t = '''' then Some (MissingDriverCmd (ID t))
      else Validate_loop (insert (ID t) seenIDs) ts)"

definition Validate :: "'a Config \<Rightarrow> config_error option" where
  "Validate c = Validate_loop {} (Targets c)"

text \<open>
  \<open>filepath.Match\<close> belongs to the Go library, so it is a parameter: it returns the pair
  \<open>(matched, err)\<close>, and its only error is \<open>ErrBadPattern\<close>. \<open>matchGlob\<close> drops the error.
\<close>

datatype match_error = ErrBadPattern

type_synonym matcher = "string \<Rightarrow> string \<Rightarrow> bool \<times> match_error option"

definition matchGlob :: "matcher \<Rightarrow> string \<Rightarrow> string \<Rightarrow> bool" where
  "matchGlob Match pattern v = fst (Match pattern v)"

text \<open>The composite key \<open>filterTargets\<close> builds for one target.\<close>

definition fullKey :: "string list \<Rightarrow> 'a TargetConfig \<Rightarrow> string" where
  "fullKey groupBy t = Join (map (\<lambda>key. index_str (Tags t) key) groupBy) '':''"

fun filterTargets ::
  "matcher \<Rightarrow> 'a TargetConfig list \<Rightarrow> string \<Rightarrow> string list \<Rightarrow> 'a TargetConfig list" where
  "filterTargets Match [] pattern groupBy = []"
| "filterTargets Match (t # ts) pattern groupBy =
     (if matchGlob Match pattern (fullKey groupBy t)
      then t # filterTargets Match ts pattern groupBy
      else filterTargets Match ts pattern groupBy)"

text \<open>
  \<open>LoadWithPattern\<close>. Its first argument here is what reading and decoding the file gave:
  the error of \<open>os.ReadFile\<close> or \<open>json.Unmarshal\<close>, or the decoded \<open>Config\<close>.
\<close>

definition LoadWithPattern ::
  "matcher \<Rightarrow> config_error + 'a Config \<Rightarrow> string \<Rightarrow> config_error + 'a Config" where
  "LoadWithPattern Match decoded pattern =
     (case decoded of
        Inl err \<Rightarrow> Inl err
      | Inr config \<Rightarrow>
          let config1 = (if length (GroupBy config) = 0
                         then config\<lparr>GroupBy := DefaultGroupBy\<rparr> else config);
              config2 = (if pattern \<noteq> '''' \<and> pattern \<noteq> ''*''
                         then config1\<lparr>Targets :=
                                filterTargets Match (Targets config1) pattern (GroupBy config1)\<rparr>
                         else config1)
          in (case Validate config2 of
                Some err \<Rightarrow> Inl err
              | None \<Rightarrow> Inr config2))"

definition Load :: "matcher \<Rightarrow> config_error + 'a Config \<Rightarrow> config_error + 'a Config" where
  "Load Match decoded = LoadWithPattern Match decoded ''''"

section \<open>Package target\<close>

definition StatusDisconnected :: string where
  "StatusDisconnected = ''disconnected''"

definition StatusConnecting :: string where
  "StatusConnecting = ''connecting''"

definition StatusConnected :: string where
  "StatusConnected = ''connected''"

definition StatusError :: string where
  "StatusError = ''error''"

record 'a ConnectionInfo =
  ControlURL :: string
  URL :: string
  Headers :: "string gomap"
  Metadata :: "'a gomap"

text \<open>The zero value \<open>ConnectionInfo{}\<close>.\<close>

definition ConnectionInfo_zero :: "'a ConnectionInfo" where
  "ConnectionInfo_zero = \<lparr>ControlURL = '''', URL = '''', Headers = [], Metadata = []\<rparr>"

text \<open>
  The private fields: \<open>cmd\<close> is the process handle (\<open>None\<close> is nil, \<open>Some pid\<close> a started
  process), \<open>cancel\<close> the cancel function of the connect context (\<open>None\<close> is nil,
  \<open>Some c\<close> the function of context \<open>c\<close>). \<open>LastChecked\<close> is a clock reading. The locks
  are not modelled: each function below is one run with no other goroutine in between.
\<close>

record 'a State =
  Config :: "'a TargetConfig"
  Status :: string
  Connection :: "'a ConnectionInfo"
  Error :: string
  LastChecked :: nat
  cmd :: "nat option"
  cancel :: "nat option"

text \<open>\<open>fmt.Sprintf("%d", n)\<close> for a natural number.\<close>

definition digit :: "nat \<Rightarrow> char" where
  "digit d = ''0123456789'' ! d"

fun show_nat :: "nat \<Rightarrow> string" where
  "show_nat n = (if n < 10 then [digit n] else show_nat (n div 10) @ [digit (n mod 10)])"

declare show_nat.simps [simp del]

text \<open>
  What the HTTP client returned for one call: \<open>client.Do\<close> failed with an error, or gave
  a response with a status code and a body. \<open>readable\<close> is the error of \<open>io.ReadAll\<close> on
  the body, if it has one.
\<close>

record response =
  StatusCode :: nat
  Body :: string
  readable :: "string option"

type_synonym http_result = "string + response"

text \<open>
  What one run of \<open>Connect\<close> meets outside the program: the result of \<open>net.Listen\<close> (an
  error or the port), of \<open>cmd.Start\<close> (an error or the pid), the fresh connect context,
  the answer to the i-th poll of \<open>/status\<close>, the answer to \<open>POST /connect\<close>, what
  \<open>json.Decoder.Decode\<close> makes of a body, starting from \<open>ConnectionInfo{}\<close>
  (an error or the decoded value, absent fields left zero), and the clock.
\<close>

record 'a world =
  listen :: "string + nat"
  start :: "string + nat"
  ctx :: nat
  poll :: "nat \<Rightarrow> http_result"
  connect_answer :: http_result
  Decode :: "string \<Rightarrow> string + 'a ConnectionInfo"
  now :: nat

text \<open>\<open>setError\<close>, without the goroutine that calls \<open>Connect\<close> again after 30 seconds.\<close>

definition setError :: "'a State \<Rightarrow> string \<Rightarrow> 'a State" where
  "setError state err = state\<lparr>Status := StatusError, Error := err\<rparr>"

text \<open>\<open>waitForDriver\<close>: the loop \<open>for i := 0; i < 50; i++\<close>, counted by what is left.\<close>

fun waitForDriver_loop :: "(nat \<Rightarrow> http_result) \<Rightarrow> nat \<Rightarrow> nat \<Rightarrow> bool" where
  "waitForDriver_loop p i 0 = False"
| "waitForDriver_loop p i (Suc left) =
     (case p i of
        Inr resp \<Rightarrow> if StatusCode resp = 200 then True else waitForDriver_loop p (Suc i) left
      | Inl err \<Rightarrow> waitForDriver_loop p (Suc i) left)"

definition waitForDriver :: "(nat \<Rightarrow> http_result) \<Rightarrow> bool" where
  "waitForDriver p = waitForDriver_loop p 0 50"

definition sendConnect ::
  "(string \<Rightarrow> string + 'a ConnectionInfo) \<Rightarrow> http_result \<Rightarrow> string + 'a ConnectionInfo" where
  "sendConnect dec answer =
     (case answer of
        Inl err \<Rightarrow> Inl err
      | Inr resp \<Rightarrow>
          if StatusCode resp \<noteq> 200
          then Inl (''status '' @ show_nat (StatusCode resp) @ '': '' @ Body resp)
          else (case dec (Body resp) of
                  Inl err \<Rightarrow> Inl err
                | Inr info \<Rightarrow> Inr info))"

text \<open>
  \<open>Connect\<close>, up to the start of the crash watcher. The goroutines it leaves behind (the
  retry of \<open>setError\<close>, the watcher) are not part of the run.
\<close>

definition Connect :: "'a world \<Rightarrow> 'a State \<Rightarrow> 'a State" where
  "Connect w state =
     (if Status state = StatusConnected \<or> Status state = StatusConnecting then state
      else
        let state1 = state\<lparr>Status := StatusConnecting, Error := ''''\<rparr> in
        (case listen w of
           Inl err \<Rightarrow> setError state1 (''find port: '' @ err)
         | Inr controlPort \<Rightarrow>
             (case start w of
                Inl err \<Rightarrow> setError state1 (''start cmd: '' @ err)
              | Inr pid \<Rightarrow>
                  let state2 = state1\<lparr>cmd := Some pid, cancel := Some (ctx w)\<rparr>;
                      controlURL = ''http://127.0.0.1:'' @ show_nat controlPort
                  in if \<not> waitForDriver (poll w)
                     then setError state2 ''driver failed to start http server''
                     else (case sendConnect (Decode w) (connect_answer w) of
                             Inl err \<Rightarrow> setError state2 (''connect failed: '' @ err)
                           | Inr connInfo \<Rightarrow>
                               state2\<lparr>Connection := connInfo\<lparr>ControlURL := controlURL\<rparr>,
                                      Status := StatusConnected,
                                      LastChecked := now w\<rparr>))))"

text \<open>
  The goroutine at the end of \<open>Connect\<close>, once \<open>cmd.Wait\<close> has returned. \<open>cancelled\<close> is
  \<open>ctx.Err() != nil || m.ctx.Err() != nil\<close>. The second component is \<open>wasConnected\<close>:
  when it is true the watcher sleeps and calls \<open>Connect\<close> again.
\<close>

definition crashWatcher :: "bool \<Rightarrow> 'a State \<Rightarrow> 'a State \<times> bool" where
  "crashWatcher cancelled state =
     (if cancelled then (state, False)
      else
        let wasConnected = (Status state = StatusConnected);
            state1 = (if wasConnected
                      then state\<lparr>Status := StatusDisconnected, Connection := ConnectionInfo_zero\<rparr>
                      else state)
        in (state1, wasConnected))"

text \<open>
  \<open>Disconnect\<close>: the new state, the process handle given to \<open>terminateDriverCmd\<close> and
  the cancel function called (\<open>None\<close> where the source skips the call).
\<close>

definition Disconnect :: "'a State \<Rightarrow> 'a State \<times> nat option \<times> nat option" where
  "Disconnect state =
     (state\<lparr>cmd := None, cancel := None, Status := StatusDisconnected,
            Connection := ConnectionInfo_zero\<rparr>,
      cmd state, cancel state)"

text \<open>\<open>NewManager\<close> registers every target as disconnected.\<close>

definition NewState :: "'a TargetConfig \<Rightarrow> 'a State" where
  "NewState t = \<lparr>Config = t, Status = StatusDisconnected, Connection = ConnectionInfo_zero,
                 Error = '''', LastChecked = 0, cmd = None, cancel = None\<rparr>"

text \<open>
  \<open>ResolveVariables\<close>. The three \<open>range\<close> loops over maps are recursions over the
  entries: the loop over \<open>rule.When\<close> with its \<open>break\<close>, and the copying loop
  \<open>for k, v := range src { result[k] = v }\<close> used for \<open>cfg.Variables\<close> and \<open>rule.Then\<close>.
\<close>

fun When_loop :: "string gomap \<Rightarrow> string gomap \<Rightarrow> bool" where
  "When_loop tags [] = True"
| "When_loop tags ((k, v) # rest) =
     (if index_str tags k \<noteq> v then False else When_loop tags rest)"

fun copy_loop :: "'v gomap \<Rightarrow> 'v gomap \<Rightarrow> 'v gomap" where
  "copy_loop [] result = result"
| "copy_loop ((k, v) # rest) result = copy_loop rest (AList.update k v result)"

fun rules_loop :: "string gomap \<Rightarrow> 'a VariableRule list \<Rightarrow> 'a gomap \<Rightarrow> 'a gomap" where
  "rules_loop tags [] result = result"
| "rules_loop tags (rule # rest) result =
     (let match = When_loop tags (When rule)
      in rules_loop tags rest (if match then copy_loop (Then rule) result else result))"

definition ResolveVariables :: "'a VariableRule list \<Rightarrow> 'a TargetConfig \<Rightarrow> 'a gomap" where
  "ResolveVariables rules cfg = rules_loop (Tags cfg) rules (copy_loop (Variables cfg) [])"

subsection \<open>Proxy methods\<close>

text \<open>\<open>strings.TrimSuffix\<close> and \<open>strings.TrimPrefix\<close>.\<close>

definition TrimSuffix :: "string \<Rightarrow> string \<Rightarrow> string" where
  "TrimSuffix s suffix =
     (if length suffix \<le> length s \<and> drop (length s - length suffix) s = suffix
      then take (length s - length suffix) s else s)"


text \<open>
  An outgoing request, as the program hands it to \<open>net/http\<close>: the method and URL given to
  \<open>http.NewRequest\<close>, the body (\<open>None\<close> is the nil reader) and the header after the calls
  of \<open>Header.Set\<close>. An \<open>http.Header\<close> maps a canonical key to its list of values.
\<close>

record request =
  Method :: string
  Target :: string
  Header :: "string list gomap"
  Payload :: "string option"

text \<open>
  The part of \<open>net/http\<close> and \<open>encoding/json\<close> the proxy methods call: the canonical form
  of a header key (\<open>textproto.CanonicalMIMEHeaderKey\<close>, applied by \<open>Header.Set\<close> and
  \<open>Header.Get\<close>), the error of \<open>http.NewRequest\<close> for a method and a URL (\<open>None\<close> when it
  builds the request), \<open>client.Do\<close>, and \<open>json.Marshal\<close> of the one-entry map
  \<open>{"command": c}\<close>.
\<close>

record net =
  CanonicalKey :: "string \<Rightarrow> string"
  NewRequest_error :: "string \<Rightarrow> string \<Rightarrow> string option"
  Do :: "request \<Rightarrow> http_result"
  Marshal_command :: "string \<Rightarrow> string"

definition Header_Set :: "net \<Rightarrow> string list gomap \<Rightarrow> string \<Rightarrow> string \<Rightarrow> string list gomap" where
  "Header_Set n h key v = AList.update (CanonicalKey n key) [v] h"

text \<open>\<open>for k, v := range headers { req.Header.Set(k, v) }\<close>.\<close>

fun headers_loop :: "net \<Rightarrow> string gomap \<Rightarrow> string list gomap \<Rightarrow> string list gomap" where
  "headers_loop n [] h = h"
| "headers_loop n ((k, v) # rest) h = headers_loop n rest (Header_Set n h k v)"

text \<open>
  The request \<open>DoProxyRequest\<close> builds between \<open>http.NewRequest\<close> and \<open>client.Do\<close>.
\<close>

definition proxy_request :: "net \<Rightarrow> string \<Rightarrow> string gomap \<Rightarrow> string \<Rightarrow> string \<Rightarrow> string option \<Rightarrow> request" where
  "proxy_request n baseURL headers method path body =
     (let fullURL = TrimSuffix baseURL ''/'' @ path;
          req = \<lparr>Method = method, Target = fullURL, Header = [], Payload = body\<rparr>;
          req1 = req\<lparr>Header := Header_Set n (Header req) ''Accept'' ''application/json''\<rparr>;
          req2 = (if body \<noteq> None
                  then req1\<lparr>Header := Header_Set n (Header req1) ''Content-Type'' ''application/json''\<rparr>
                  else req1)
      in req2\<lparr>Header := headers_loop n headers (Header req2)\<rparr>)"

text \<open>
  The three results of a proxy method are \<open>(body, status code, error)\<close>, \<open>None\<close> for nil.
  The model also returns the state (the source only reads it, under the read lock) and
  the requests given to \<open>client.Do\<close>.
\<close>

type_synonym result = "string option \<times> nat \<times> string option"

definition DoProxyRequest ::
  "net \<Rightarrow> 'a State \<Rightarrow> string \<Rightarrow> string \<Rightarrow> string option \<Rightarrow> 'a State \<times> result \<times> request list" where
  "DoProxyRequest n s method path body =
     (let status = Status s;
          baseURL = URL (Connection s);
          headers = Headers (Connection s)
      in if status \<noteq> StatusConnected
         then (s, (None, 0, Some (''target not connected (status: '' @ status @ '')'')), [])
         else if baseURL = ''''
         then (s, (None, 0, Some ''target has no base URL''), [])
         else
           (case NewRequest_error n method (TrimSuffix baseURL ''/'' @ path) of
              Some err \<Rightarrow> (s, (None, 0, Some err), [])
            | None \<Rightarrow>
                let req = proxy_request n baseURL headers method path body
                in (case Do n req of
                      Inl err \<Rightarrow> (s, (None, 0, Some err), [req])
                    | Inr resp \<Rightarrow>
                        (case readable resp of
                           Some err \<Rightarrow>
                             (s, (None, StatusCode resp, Some (''read body: '' @ err)), [req])
                         | None \<Rightarrow> (s, (Some (Body resp), StatusCode resp, None), [req])))))"


section \<open>Package api\<close>

text \<open>
  The manager as the handlers see it: the registry (a map from id to state; the source
  keeps pointers, so a handler that changes a state returns the registry with that entry
  replaced), the rules and the group\_by keys.
\<close>

record 'a Manager =
  targets :: "'a State gomap"
  rules :: "'a VariableRule list"
  groupBy :: "string list"




text \<open>
  What \<open>json.Encoder.Encode\<close> is given, as a tree. \<open>JObject\<close> is an object whose member
  names the program fixes (the \<open>json\<close> tags of a struct, the keys of a map literal), in
  the order of the fields, a field tagged \<open>omitempty\<close> left out when it is empty. \<open>JMap\<close>
  is the encoding of a map of the state: its member names are the keys found in the data;
  the list holds its entries, which the encoder writes sorted by key. A map literal of the
  program is a \<open>JObject\<close> with its keys in that sorted order. \<open>JAny\<close> is the encoding of an
  \<open>interface{}\<close> value.
\<close>

datatype 'a json =
    JString string
  | JAny 'a
  | JArray "'a json list"
  | JObject "(string \<times> 'a json) list"
  | JMap "(string \<times> 'a json) list"

definition json_strings :: "string gomap \<Rightarrow> 'a json" where
  "json_strings m = JMap (map (\<lambda>(k, v). (k, JString v)) m)"

definition json_anys :: "'a gomap \<Rightarrow> 'a json" where
  "json_anys m = JMap (map (\<lambda>(k, v). (k, JAny v)) m)"




definition getTag :: "string gomap \<Rightarrow> string \<Rightarrow> string \<Rightarrow> string" where
  "getTag tags key defaultVal =
     (if tags = [] then defaultVal
      else (case map_of tags key of Some v \<Rightarrow> v | None \<Rightarrow> defaultVal))"

subsection \<open>handleGroups\<close>

text \<open>The two local struct types of \<open>handleGroups\<close>; \<open>Targets\<close> is \<open>Slots\<close> here.\<close>

record groupTarget =
  g_ID :: string
  g_Status :: string
  g_LocalURL :: string
  g_Headers :: "string gomap"
  g_Error :: string

record groupInfo =
  Key :: string
  Values :: "string gomap"
  Slots :: "groupTarget gomap"

text \<open>The inner loop: \<open>values[key] = val; keyParts[i] = val\<close> for each key of group\_by.\<close>

fun keys_loop ::
  "string gomap \<Rightarrow> string list \<Rightarrow> string gomap \<Rightarrow> string list \<Rightarrow> string gomap \<times> string list" where
  "keys_loop tags [] values keyParts = (values, keyParts)"
| "keys_loop tags (key # rest) values keyParts =
     (let v = getTag tags key ''unknown''
      in keys_loop tags rest (AList.update key v values) (keyParts @ [v]))"

text \<open>One pass of the outer loop, for one target state.\<close>

definition group_step :: "string list \<Rightarrow> 'a State \<Rightarrow> groupInfo gomap \<Rightarrow> groupInfo gomap" where
  "group_step gb state groups =
     (let (values, keyParts) = keys_loop (Tags (Config state)) gb [] [];
          groupKey = Join keyParts '':'';
          variant = getTag (Tags (Config state)) ''variant'' ''default'';
          groups1 = (if map_of groups groupKey = None
                     then AList.update groupKey
                            \<lparr>Key = groupKey, Values = values, Slots = []\<rparr> groups
                     else groups)
      in AList.map_entry groupKey
           (\<lambda>g. g\<lparr>Slots := AList.update variant
                     \<lparr>g_ID = ID (Config state), g_Status = Status state,
                      g_LocalURL = URL (Connection state),
                      g_Headers = Headers (Connection state),
                      g_Error = Error state\<rparr> (Slots g)\<rparr>)
           groups1)"

fun groups_loop :: "string list \<Rightarrow> 'a State list \<Rightarrow> groupInfo gomap \<Rightarrow> groupInfo gomap" where
  "groups_loop gb [] groups = groups"
| "groups_loop gb (state # rest) groups = groups_loop gb rest (group_step gb state groups)"





subsection \<open>handleTargets\<close>





subsection \<open>handleTargetAction\<close>







section \<open>Notions of the specification\<close>

subsection \<open>Joining and composite keys\<close>

text \<open>
  Strings joined by a separator, and the composite key of a target: the values of its
  tags under the group\_by dimensions, in order, joined by the separator, with a given
  string standing in for a tag the target lacks.
\<close>

definition joined :: "string \<Rightarrow> string list \<Rightarrow> string" where
  "joined sep xs = (case xs of [] \<Rightarrow> [] | x # rest \<Rightarrow> x @ concat (map (\<lambda>y. sep @ y) rest))"

definition composite_key :: "string \<Rightarrow> string \<Rightarrow> string list \<Rightarrow> string gomap \<Rightarrow> string" where
  "composite_key sep missing gb tags =
     joined sep (map (\<lambda>d. case map_of tags d of None \<Rightarrow> missing | Some v \<Rightarrow> v) gb)"

subsection \<open>Glob patterns\<close>














subsection \<open>Variable resolution\<close>

text \<open>
  The words of the specification for \<open>ResolveVariables\<close>: a rule matches when its \<open>when\<close>
  map is contained in the target's tags (every key of \<open>when\<close> is a tag of the target with
  the value \<open>when\<close> gives), and the result is the target's own variables overlaid with the
  \<open>then\<close> maps of the rules that match, in the order of the rules.
\<close>

definition rule_matches :: "'a TargetConfig \<Rightarrow> 'a VariableRule \<Rightarrow> bool" where
  "rule_matches T r \<longleftrightarrow> map_of (When r) \<subseteq>\<^sub>m map_of (Tags T)"

definition overlay :: "'a TargetConfig \<Rightarrow> 'a VariableRule list \<Rightarrow> (string \<rightharpoonup> 'a)" where
  "overlay T R =
     foldl (\<lambda>m r. if rule_matches T r then m ++ map_of (Then r) else m) (map_of (Variables T)) R"

text \<open>
  The same with a tag the target lacks counted as the empty string: a rule applies when
  every key of its \<open>when\<close> map has the value of the target's tag of that key, or the
  value \<open>""\<close> where the target has no such tag.
\<close>

definition rule_applies :: "'a TargetConfig \<Rightarrow> 'a VariableRule \<Rightarrow> bool" where
  "rule_applies T r =
     (\<forall>k \<in> set (map fst (When r)).
        map_of (When r) k = Some (case map_of (Tags T) k of None \<Rightarrow> '''' | Some v \<Rightarrow> v))"

definition overlay_applied :: "'a TargetConfig \<Rightarrow> 'a VariableRule list \<Rightarrow> (string \<rightharpoonup> 'a)" where
  "overlay_applied T R =
     foldl (\<lambda>m r. if rule_applies T r then m ++ map_of (Then r) else m) (map_of (Variables T)) R"

text \<open>
  Two rules, or two targets, that hold the same Go maps: their association lists may
  list the entries in different orders.
\<close>

definition same_rule :: "'a VariableRule \<Rightarrow> 'a VariableRule \<Rightarrow> bool" where
  "same_rule r r' \<longleftrightarrow> wf_map (When r') \<and> wf_map (Then r') \<and>
     map_of (When r') = map_of (When r) \<and> map_of (Then r') = map_of (Then r)"

definition same_target :: "'a TargetConfig \<Rightarrow> 'a TargetConfig \<Rightarrow> bool" where
  "same_target T T' \<longleftrightarrow> wf_map (Variables T') \<and>
     map_of (Tags T') = map_of (Tags T) \<and> map_of (Variables T') = map_of (Variables T)"

text \<open>
  The call with the two values it is given made part of what it returns: the source
  assigns to \<open>result\<close>, \<open>match\<close> and its loop variables only, so the manager's rules and the
  target's configuration come back as they went in.
\<close>

definition ResolveVariables_call ::
  "'a VariableRule list \<times> 'a TargetConfig \<Rightarrow> ('a VariableRule list \<times> 'a TargetConfig) \<times> 'a gomap" where
  "ResolveVariables_call inp = (inp, ResolveVariables (fst inp) (snd inp))"

subsection \<open>Proxy headers\<close>





subsection \<open>Groups\<close>

text \<open>
  The key of the group of a target (a missing tag counts as \<open>unknown\<close>), its slot in the
  group (\<open>default\<close> without a \<open>variant\<close> tag) and the snapshot stored there.
\<close>

definition group_key :: "string list \<Rightarrow> 'a State \<Rightarrow> string" where
  "group_key gb s = composite_key '':'' ''unknown'' gb (Tags (Config s))"

definition slot_of :: "'a State \<Rightarrow> string" where
  "slot_of s = (case map_of (Tags (Config s)) ''variant'' of None \<Rightarrow> ''default'' | Some v \<Rightarrow> v)"

definition snapshot :: "'a State \<Rightarrow> groupTarget" where
  "snapshot s = \<lparr>g_ID = ID (Config s), g_Status = Status s, g_LocalURL = URL (Connection s),
                 g_Headers = Headers (Connection s), g_Error = Error s\<rparr>"



definition keyed :: "groupInfo gomap \<Rightarrow> bool" where
  "keyed groups \<longleftrightarrow> (\<forall>k g. map_of groups k = Some g \<longrightarrow> Key g = k)"

subsection \<open>Member names of a reply\<close>

text \<open>
  The member names the program itself writes into a JSON value: those of its \<open>JObject\<close>
  nodes. The keys of a \<open>JMap\<close> are data (tags, labels, variables, headers, metadata).
\<close>

fun member_names :: "'a json \<Rightarrow> string set" where
  "member_names (JString s) = {}"
| "member_names (JAny v) = {}"
| "member_names (JArray xs) = (\<Union>x \<in> set xs. member_names x)"
| "member_names (JObject fs) = fst ` set fs \<union> (\<Union>f \<in> set fs. member_names (snd f))"
| "member_names (JMap es) = (\<Union>e \<in> set es. member_names (snd e))"





section \<open>Example values\<close>

text \<open>A target, a driver that answers the handshake with a given body, and a network.\<close>

definition example_config :: "string \<Rightarrow> string gomap \<Rightarrow> nat TargetConfig" where
  "example_config i tags =
     \<lparr>ID = i, Name = i, Tags = tags, Labels = [], DriverCmd = ''python3 mock_driver.py'',
      Visual = [], Variables = []\<rparr>"

definition example_world :: "string \<Rightarrow> nat ConnectionInfo \<Rightarrow> nat world" where
  "example_world body info =
     \<lparr>listen = Inr 40000, start = Inr 4242, ctx = 1,
      poll = (\<lambda>i. Inr \<lparr>StatusCode = 200, Body = ''{}'', readable = None\<rparr>),
      connect_answer = Inr \<lparr>StatusCode = 200, Body = body, readable = None\<rparr>,
      Decode = (\<lambda>b. if b = body then Inr info else Inl ''invalid character''),
      now = 7\<rparr>"

definition example_net :: net where
  "example_net =
     \<lparr>CanonicalKey = (\<lambda>k. k), NewRequest_error = (\<lambda>method url. None),
      Do = (\<lambda>req. Inr \<lparr>StatusCode = 200, Body = ''{}'', readable = None\<rparr>),
      Marshal_command = (\<lambda>c. c)\<rparr>"

definition example_connected :: "string \<Rightarrow> string gomap \<Rightarrow> nat State" where
  "example_connected url hs =
     (NewState (example_config ''t1'' []))
       \<lparr>Status := StatusConnected,
        Connection := \<lparr>ControlURL = ''http://127.0.0.1:40000'', URL = url, Headers = hs,
                       Metadata = []\<rparr>,
        cmd := Some 4242, cancel := Some 1\<rparr>"

section \<open>Validation\<close>

lemma Validate_loop_None:
  "Validate_loop seen ts = None \<longleftrightarrow>
     (\<forall>t \<in> set ts. ID t \<noteq> '''' \<and> DriverCmd t \<noteq> '''' \<and> ID t \<notin> seen) \<and> distinct (map ID ts)"
proof (induction ts arbitrary: seen)
  case Nil
  show ?case by simp
next
  case (Cons t ts)
  show ?case
  proof (cases "ID t = [] \<or> ID t \<in> seen \<or> DriverCmd t = []")
    case True
    then show ?thesis by auto
  next
    case False
    then have "Validate_loop seen (t # ts) = Validate_loop (insert (ID t) seen) ts"
      by simp
    also have "\<dots> = None \<longleftrightarrow>
        (\<forall>u \<in> set ts. ID u \<noteq> [] \<and> DriverCmd u \<noteq> [] \<and> ID u \<notin> insert (ID t) seen)
        \<and> distinct (map ID ts)"
      by (rule Cons.IH)
    finally show ?thesis using False by (auto simp: image_iff)
  qed
qed

text \<open>
  C7. \<open>Validate\<close> returns an error exactly when some target has an empty id, two targets
  share an id, or some target has an empty driver\_cmd; when every target has a non-empty
  id, the ids are pairwise distinct and every driver\_cmd is non-empty, it returns nil.
\<close>

theorem Validate_fails_iff:
  "(Validate c \<noteq> None \<longleftrightarrow>
      (\<exists>t \<in> set (Targets c). ID t = '''') \<or> \<not> distinct (map ID (Targets c)) \<or>
      (\<exists>t \<in> set (Targets c). DriverCmd t = ''''))
   \<and> ((\<forall>t \<in> set (Targets c). ID t \<noteq> '''' \<and> DriverCmd t \<noteq> '''') \<and> distinct (map ID (Targets c))
        \<longrightarrow> Validate c = None)"
  unfolding Validate_def Validate_loop_None by auto

theorem Validate_fails_iff_witness:
  "Validate \<lparr>GroupBy = [], Targets =
       [\<lparr>ID = ''a'', Name = ''A'', Tags = [], Labels = [], DriverCmd = ''run a'',
          Visual = [], Variables = ([] :: unit gomap)\<rparr>,
        \<lparr>ID = ''b'', Name = ''B'', Tags = [], Labels = [], DriverCmd = ''run b'',
          Visual = [], Variables = []\<rparr>], Rules = []\<rparr> = None
   \<and> Validate \<lparr>GroupBy = [], Targets =
       [\<lparr>ID = ''a'', Name = ''A'', Tags = [], Labels = [], DriverCmd = ''run a'',
          Visual = [], Variables = ([] :: unit gomap)\<rparr>,
        \<lparr>ID = ''a'', Name = ''B'', Tags = [], Labels = [], DriverCmd = ''run b'',
          Visual = [], Variables = []\<rparr>], Rules = []\<rparr> \<noteq> None"
  using
    Validate_fails_iff [of "\<lparr>GroupBy = [], Targets =
       [\<lparr>ID = ''a'', Name = ''A'', Tags = [], Labels = [], DriverCmd = ''run a'',
          Visual = [], Variables = ([] :: unit gomap)\<rparr>,
        \<lparr>ID = ''b'', Name = ''B'', Tags = [], Labels = [], DriverCmd = ''run b'',
          Visual = [], Variables = []\<rparr>], Rules = []\<rparr>"]
    Validate_fails_iff [of "\<lparr>GroupBy = [], Targets =
       [\<lparr>ID = ''a'', Name = ''A'', Tags = [], Labels = [], DriverCmd = ''run a'',
          Visual = [], Variables = ([] :: unit gomap)\<rparr>,
        \<lparr>ID = ''a'', Name = ''B'', Tags = [], Labels = [], DriverCmd = ''run b'',
          Visual = [], Variables = []\<rparr>], Rules = []\<rparr>"]
  by simp

section \<open>Loading with a pattern\<close>

lemma filterTargets_filter:
  "filterTargets Match ts pattern gb =
     filter (\<lambda>t. fst (Match pattern (fullKey gb t))) ts"
  by (induction ts) (simp_all add: matchGlob_def)

lemma Join_joined: "Join xs sep = joined sep xs"
  by (induction xs sep rule: Join.induct) (simp_all add: joined_def)








text \<open>
  C10. For a pattern other than the empty one and \<open>*\<close> that \<open>filepath.Match\<close> rejects as
  malformed (it returns \<open>false\<close> and \<open>ErrBadPattern\<close> whatever the name), the load reports
  no error: it returns the configuration with no target at all.
\<close>

theorem LoadWithPattern_bad_pattern:
  assumes "pattern \<noteq> ''''" "pattern \<noteq> ''*''"
    and "\<forall>v. Match pattern v = (False, Some ErrBadPattern)"
  shows "LoadWithPattern Match (Inr config) pattern =
           Inr (config\<lparr>GroupBy := (if GroupBy config = [] then DefaultGroupBy else GroupBy config),
                       Targets := []\<rparr>)"
  using assms unfolding LoadWithPattern_def
  by (simp add: filterTargets_filter Validate_def Let_def)



theorem LoadWithPattern_bad_pattern_witness:
  "''[abc'' \<noteq> '''' \<and> ''[abc'' \<noteq> ''*''
   \<and> LoadWithPattern
        (\<lambda>p v. if p = ''[abc'' then (False, Some ErrBadPattern) else (True, None))
        (Inr \<lparr>GroupBy = [], Targets = [example_config ''t1'' [(''environment'', ''abc'')],
                                         example_config ''t2'' []], Rules = []\<rparr>)
        ''[abc''
     = Inr \<lparr>GroupBy = [''environment'', ''region'', ''name''], Targets = [], Rules = []\<rparr>"
proof -
  let ?Match = "\<lambda>p v. if p = ''[abc'' then (False, Some ErrBadPattern) else (True, None)"
  have bad: "\<forall>v. ?Match ''[abc'' v = (False, Some ErrBadPattern)"
    by simp
  have ne: "''[abc'' \<noteq> ''''" "''[abc'' \<noteq> ''*''" by simp_all
  let ?c = "\<lparr>GroupBy = [], Targets = [example_config ''t1'' [(''environment'', ''abc'')],
                                         example_config ''t2'' []], Rules = []\<rparr>"
  note t = LoadWithPattern_bad_pattern [of "''[abc''" ?Match ?c, OF ne bad]
  from t ne show ?thesis
    by (simp add: DefaultGroupBy_def)
qed

section \<open>Variable resolution\<close>

lemma copy_loop_map_of:
  "distinct (map fst src) \<Longrightarrow> map_of (copy_loop src result) = map_of result ++ map_of src"
proof (induction src arbitrary: result)
  case Nil
  show ?case by simp
next
  case (Cons p rest)
  obtain k v where p: "p = (k, v)" by (cases p)
  from Cons.prems p have k: "k \<notin> dom (map_of rest)" and d: "distinct (map fst rest)"
    by (auto simp: dom_map_of_conv_image_fst)
  have "map_of (copy_loop (p # rest) result) = map_of (AList.update k v result) ++ map_of rest"
    using Cons.IH [OF d] p by simp
  also have "\<dots> = (map_of result)(k \<mapsto> v) ++ map_of rest"
    by (simp add: update_conv')
  also have "\<dots> = (map_of result ++ map_of rest)(k \<mapsto> v)"
    using k by (rule map_add_upd_left)
  also have "\<dots> = map_of result ++ map_of (p # rest)"
    using p by simp
  finally show ?case .
qed

lemma copy_loop_distinct:
  "distinct (map fst result) \<Longrightarrow> distinct (map fst (copy_loop src result))"
  by (induction src arbitrary: result) (auto simp: distinct_update)

lemma When_loop_iff:
  "When_loop tags w \<longleftrightarrow> (\<forall>p \<in> set w. index_str tags (fst p) = snd p)"
  by (induction w) (auto split: if_splits)

lemma When_loop_rule_applies:
  assumes "wf_map (When r)"
  shows "When_loop (Tags T) (When r) \<longleftrightarrow> rule_applies T r"
proof -
  have m: "map_of (When r) (fst p) = Some (snd p)" if "p \<in> set (When r)" for p
    using assms that by (simp add: wf_map_def)
  have ix: "index_str (Tags T) k = (case map_of (Tags T) k of None \<Rightarrow> '''' | Some v \<Rightarrow> v)" for k
    by (simp add: index_str_def)
  show ?thesis
    unfolding When_loop_iff rule_applies_def ix [symmetric]
  proof
    assume a: "\<forall>p \<in> set (When r). index_str (Tags T) (fst p) = snd p"
    show "\<forall>k \<in> set (map fst (When r)). map_of (When r) k = Some (index_str (Tags T) k)"
    proof
      fix k assume "k \<in> set (map fst (When r))"
      then obtain p where p: "p \<in> set (When r)" "k = fst p" by auto
      from a p(1) have "index_str (Tags T) (fst p) = snd p" by (rule bspec)
      with m [OF p(1)] p(2) show "map_of (When r) k = Some (index_str (Tags T) k)" by simp
    qed
  next
    assume a: "\<forall>k \<in> set (map fst (When r)). map_of (When r) k = Some (index_str (Tags T) k)"
    show "\<forall>p \<in> set (When r). index_str (Tags T) (fst p) = snd p"
    proof
      fix p assume p: "p \<in> set (When r)"
      then have "fst p \<in> set (map fst (When r))" by simp
      with a have "map_of (When r) (fst p) = Some (index_str (Tags T) (fst p))" by (rule bspec)
      with m [OF p] show "index_str (Tags T) (fst p) = snd p" by simp
    qed
  qed
qed

lemma rules_loop_map_of:
  assumes "\<forall>r \<in> set R. wf_map (When r) \<and> wf_map (Then r)"
  shows "map_of (rules_loop (Tags T) R result) =
     foldl (\<lambda>m r. if rule_applies T r then m ++ map_of (Then r) else m) (map_of result) R"
  using assms
proof (induction R arbitrary: result)
  case Nil
  show ?case by simp
next
  case (Cons r R)
  then have r: "wf_map (When r)" "wf_map (Then r)"
    and R: "\<forall>r \<in> set R. wf_map (When r) \<and> wf_map (Then r)" by simp_all
  show ?case
    using Cons.IH [OF R] r
    by (simp add: When_loop_rule_applies copy_loop_map_of wf_map_def)
qed

lemma rules_loop_distinct:
  "distinct (map fst result) \<Longrightarrow> distinct (map fst (rules_loop tags R result))"
  by (induction R arbitrary: result) (simp_all add: copy_loop_distinct Let_def)

lemma rule_applies_cong:
  assumes "same_rule r r'" "map_of (Tags T') = map_of (Tags T)"
  shows "rule_applies T' r' = rule_applies T r"
proof -
  have "set (map fst (When r')) = set (map fst (When r))"
    using assms(1) unfolding same_rule_def
    by (metis dom_map_of_conv_image_fst set_map)
  then show ?thesis
    using assms unfolding rule_applies_def same_rule_def by simp
qed

lemma overlay_applied_cong:
  assumes "list_all2 same_rule R R'" "map_of (Tags T') = map_of (Tags T)"
  shows "foldl (\<lambda>m r. if rule_applies T' r then m ++ map_of (Then r) else m) m0 R' =
         foldl (\<lambda>m r. if rule_applies T r then m ++ map_of (Then r) else m) m0 R"
  using assms(1)
proof (induction R R' arbitrary: m0 rule: list_all2_induct)
  case Nil
  show ?case by simp
next
  case (Cons r R r' R')
  have "rule_applies T' r' = rule_applies T r"
    using Cons.hyps(1) assms(2) by (rule rule_applies_cong)
  moreover have "map_of (Then r') = map_of (Then r)"
    using Cons.hyps(1) by (simp add: same_rule_def)
  ultimately show ?case using Cons.IH by simp
qed

text \<open>
  C3, as stated, fails. A rule whose \<open>when\<close> map is \<open>{env: ""}\<close> is not contained in the
  tags \<open>{region: us}\<close> of a target that has no \<open>env\<close> tag, so by the words of the
  specification it does not match and its \<open>then\<close> is not merged. \<open>ResolveVariables\<close> reads
  the missing tag as the empty string, finds it equal to the \<open>when\<close> value and merges
  \<open>then\<close>.
\<close>

theorem ResolveVariables_missing_tag_counterexample:
  "\<not> rule_matches (example_config ''t1'' [(''region'', ''us'')])
        \<lparr>When = [(''env'', '''')], Then = [(''x'', 1)]\<rparr>
   \<and> overlay (example_config ''t1'' [(''region'', ''us'')])
        [\<lparr>When = [(''env'', '''')], Then = [(''x'', 1)]\<rparr>] ''x'' = None
   \<and> map_of (ResolveVariables [\<lparr>When = [(''env'', '''')], Then = [(''x'', 1)]\<rparr>]
        (example_config ''t1'' [(''region'', ''us'')])) ''x'' = Some 1
   \<and> map_of (ResolveVariables [\<lparr>When = [(''env'', '''')], Then = [(''x'', 1)]\<rparr>]
        (example_config ''t1'' [(''region'', ''us'')]))
       \<noteq> overlay (example_config ''t1'' [(''region'', ''us'')])
           [\<lparr>When = [(''env'', '''')], Then = [(''x'', 1)]\<rparr>]"
proof -
  let ?T = "example_config ''t1'' [(''region'', ''us'')]"
  let ?r = "\<lparr>When = [(''env'', '''')], Then = [(''x'', 1::nat)]\<rparr>"
  have nm: "\<not> rule_matches ?T ?r"
    by (simp add: rule_matches_def map_le_def example_config_def)
  then have ov: "overlay ?T [?r] ''x'' = None"
    by (simp add: overlay_def example_config_def)
  have rv: "map_of (ResolveVariables [?r] ?T) ''x'' = Some 1"
    by (simp add: ResolveVariables_def index_str_def example_config_def)
  from ov rv have "map_of (ResolveVariables [?r] ?T) \<noteq> overlay ?T [?r]"
    by (metis option.distinct(1))
  with nm ov rv show ?thesis by simp
qed

text \<open>
  C3, amended. For a target \<open>T\<close> and rules \<open>R\<close> (Go maps, so with distinct keys),
  \<open>ResolveVariables\<close> returns a map that is \<open>T\<close>'s own variables overlaid, in the order of
  the rules, with the \<open>then\<close> of exactly the rules whose \<open>when\<close> keys all have the value of
  \<open>T\<close>'s tag of the same key, a tag \<open>T\<close> lacks counting as the empty string (later rules
  that apply overwrite earlier ones and the base variables; a rule with a key that
  differs contributes nothing). The result depends on the maps only, not on the order in
  which a run walks them: the function is deterministic. The call leaves \<open>T\<close> and \<open>R\<close> as
  they were.
\<close>

theorem ResolveVariables_applied:
  assumes "wf_map (Variables T)" and "\<forall>r \<in> set R. wf_map (When r) \<and> wf_map (Then r)"
  shows "map_of (ResolveVariables R T) = overlay_applied T R
    \<and> wf_map (ResolveVariables R T)
    \<and> (\<forall>(T' :: 'a TargetConfig) R'. same_target T T' \<and> list_all2 same_rule R R' \<longrightarrow>
          map_of (ResolveVariables R' T') = map_of (ResolveVariables R T))
    \<and> fst (ResolveVariables_call (R, T)) = (R, T)
    \<and> snd (ResolveVariables_call (R, T)) = ResolveVariables R T"
proof -
  have eq: "map_of (ResolveVariables R' T') = overlay_applied T' R'"
    if "wf_map (Variables T')" "\<forall>r \<in> set R'. wf_map (When r) \<and> wf_map (Then r)" for T' R'
    using that unfolding ResolveVariables_def overlay_applied_def
    by (simp add: rules_loop_map_of copy_loop_map_of wf_map_def)
  have wf: "wf_map (ResolveVariables R T)"
    unfolding ResolveVariables_def wf_map_def
    by (simp add: rules_loop_distinct copy_loop_distinct)
  have det: "map_of (ResolveVariables R' T') = map_of (ResolveVariables R T)"
    if st: "same_target T T'" and sr: "list_all2 same_rule R R'" for T' R'
  proof -
    have wfR': "\<forall>r \<in> set R'. wf_map (When r) \<and> wf_map (Then r)"
      using sr by (auto simp: list_all2_conv_all_nth in_set_conv_nth same_rule_def)
    have "overlay_applied T' R' = overlay_applied T R"
      unfolding overlay_applied_def using overlay_applied_cong [OF sr, of T' T] st
      by (simp add: same_target_def)
    then show ?thesis
      using eq [OF assms] eq [OF _ wfR', of T'] st by (simp add: same_target_def)
  qed
  show ?thesis
  proof (intro conjI allI impI)
    show "map_of (ResolveVariables R T) = overlay_applied T R"
      using assms by (rule eq)
    show "wf_map (ResolveVariables R T)"
      by (rule wf)
    show "fst (ResolveVariables_call (R, T)) = (R, T)"
      by (simp add: ResolveVariables_call_def)
    show "snd (ResolveVariables_call (R, T)) = ResolveVariables R T"
      by (simp add: ResolveVariables_call_def)
  next
    fix T' :: "'a TargetConfig" and R'
    assume "same_target T T' \<and> list_all2 same_rule R R'"
    then show "map_of (ResolveVariables R' T') = map_of (ResolveVariables R T)"
      using det [of T' R'] by simp
  qed
qed

theorem ResolveVariables_applied_witness:
  "wf_map [(''a'', 1::nat), (''b'', 2)]
   \<and> wf_map [(''env'', ''prod'')] \<and> wf_map [(''b'', 3::nat), (''c'', 4)]
   \<and> wf_map [(''env'', ''dev'')] \<and> wf_map [(''a'', 9::nat)]
   \<and> wf_map [(''region'', '''')] \<and> wf_map [(''d'', 5::nat)]
   \<and> map_of (ResolveVariables
         [\<lparr>When = [(''env'', ''prod'')], Then = [(''b'', 3), (''c'', 4)]\<rparr>,
          \<lparr>When = [(''env'', ''dev'')], Then = [(''a'', 9)]\<rparr>,
          \<lparr>When = [(''region'', '''')], Then = [(''d'', 5)]\<rparr>]
         ((example_config ''t1'' [(''env'', ''prod'')])\<lparr>Variables := [(''a'', 1), (''b'', 2)]\<rparr>))
       = [''a'' \<mapsto> 1, ''b'' \<mapsto> 3, ''c'' \<mapsto> 4, ''d'' \<mapsto> 5]
   \<and> map_of (ResolveVariables
         [\<lparr>When = [(''env'', ''prod'')], Then = [(''c'', 4), (''b'', 3)]\<rparr>,
          \<lparr>When = [(''env'', ''dev'')], Then = [(''a'', 9)]\<rparr>,
          \<lparr>When = [(''region'', '''')], Then = [(''d'', 5)]\<rparr>]
         ((example_config ''t1'' [(''env'', ''prod'')])\<lparr>Variables := [(''b'', 2), (''a'', 1)]\<rparr>))
       = [''a'' \<mapsto> 1, ''b'' \<mapsto> 3, ''c'' \<mapsto> 4, ''d'' \<mapsto> 5]"
proof -
  let ?T = "(example_config ''t1'' [(''env'', ''prod'')])\<lparr>Variables := [(''a'', 1), (''b'', 2)]\<rparr>"
  let ?R = "[\<lparr>When = [(''env'', ''prod'')], Then = [(''b'', 3::nat), (''c'', 4)]\<rparr>,
             \<lparr>When = [(''env'', ''dev'')], Then = [(''a'', 9)]\<rparr>,
             \<lparr>When = [(''region'', '''')], Then = [(''d'', 5)]\<rparr>]"
  let ?T' = "(example_config ''t1'' [(''env'', ''prod'')])\<lparr>Variables := [(''b'', 2), (''a'', 1)]\<rparr>"
  let ?R' = "[\<lparr>When = [(''env'', ''prod'')], Then = [(''c'', 4::nat), (''b'', 3)]\<rparr>,
              \<lparr>When = [(''env'', ''dev'')], Then = [(''a'', 9)]\<rparr>,
              \<lparr>When = [(''region'', '''')], Then = [(''d'', 5)]\<rparr>]"
  have wfs: "wf_map [(''a'', 1::nat), (''b'', 2)]" "wf_map [(''env'', ''prod'')]"
    "wf_map [(''b'', 3::nat), (''c'', 4)]" "wf_map [(''env'', ''dev'')]" "wf_map [(''a'', 9::nat)]"
    "wf_map [(''region'', '''')]" "wf_map [(''d'', 5::nat)]"
    by (simp_all add: wf_map_def)
  have h1: "wf_map (Variables ?T)" using wfs by simp
  have h2: "\<forall>r \<in> set ?R. wf_map (When r) \<and> wf_map (Then r)" using wfs by simp
  note t = ResolveVariables_applied [OF h1 h2]
  have ov: "overlay_applied ?T ?R = [''a'' \<mapsto> 1, ''b'' \<mapsto> 3, ''c'' \<mapsto> 4, ''d'' \<mapsto> 5]"
    by (auto simp: overlay_applied_def rule_applies_def example_config_def fun_eq_iff
          map_add_def)
  from t ov have r: "map_of (ResolveVariables ?R ?T) = [''a'' \<mapsto> 1, ''b'' \<mapsto> 3, ''c'' \<mapsto> 4, ''d'' \<mapsto> 5]"
    by simp
  have st: "same_target ?T ?T'"
    by (auto simp: same_target_def wf_map_def example_config_def fun_eq_iff)
  have sr: "list_all2 same_rule ?R ?R'"
    by (auto simp: same_rule_def wf_map_def fun_eq_iff)
  from t st sr have "map_of (ResolveVariables ?R' ?T') = map_of (ResolveVariables ?R ?T)"
    by blast
  with r wfs show ?thesis by simp
qed

section \<open>Connect\<close>

lemma show_nat_ne: "show_nat n \<noteq> []"
  by (subst show_nat.simps) simp

lemma Status_distinct:
  "StatusError \<noteq> StatusConnected" "StatusConnecting \<noteq> StatusConnected"
  "StatusDisconnected \<noteq> StatusConnected"
  by (simp_all add: StatusError_def StatusConnected_def StatusConnecting_def StatusDisconnected_def)

lemma setError_status: "Status (setError s e) = StatusError"
  by (simp add: setError_def)

lemma sendConnect_Inr:
  "sendConnect dec answer = Inr info \<Longrightarrow>
     \<exists>resp. answer = Inr resp \<and> StatusCode resp = 200 \<and> dec (Body resp) = Inr info"
  by (auto simp: sendConnect_def split: sum.splits if_splits)

lemma Connect_cases:
  "Status (Connect w s) = Status s \<and> Connect w s = s
   \<or> Status (Connect w s) = StatusError
   \<or> (\<exists>port pid info. listen w = Inr port \<and> sendConnect (Decode w) (connect_answer w) = Inr info
        \<and> Connect w s = s\<lparr>Status := StatusConnected, Error := '''', cmd := Some pid,
              cancel := Some (ctx w),
              Connection := info\<lparr>ControlURL := ''http://127.0.0.1:'' @ show_nat port\<rparr>,
              LastChecked := now w\<rparr>)"
proof (cases "Status s = StatusConnected \<or> Status s = StatusConnecting")
  case True
  then show ?thesis by (simp add: Connect_def)
next
  case idle: False
  show ?thesis
  proof (cases "listen w")
    case (Inl err)
    with idle show ?thesis by (simp add: Connect_def setError_status)
  next
    case port: (Inr port)
    show ?thesis
    proof (cases "start w")
      case (Inl err)
      with idle port show ?thesis by (simp add: Connect_def setError_status)
    next
      case pid: (Inr pid)
      show ?thesis
      proof (cases "waitForDriver (poll w)")
        case False
        with idle port pid show ?thesis by (simp add: Connect_def setError_status)
      next
        case ready: True
        show ?thesis
        proof (cases "sendConnect (Decode w) (connect_answer w)")
          case (Inl err)
          with idle port pid ready show ?thesis by (simp add: Connect_def setError_status)
        next
          case (Inr info)
          with idle port pid ready have
            "Connect w s = s\<lparr>Status := StatusConnected, Error := '''', cmd := Some pid,
              cancel := Some (ctx w),
              Connection := info\<lparr>ControlURL := ''http://127.0.0.1:'' @ show_nat port\<rparr>,
              LastChecked := now w\<rparr>"
            by (simp add: Connect_def)
          with port Inr show ?thesis by blast
        qed
      qed
    qed
  qed
qed

lemma waitForDriver_loop_first:
  "p i = Inr resp \<Longrightarrow> StatusCode resp = 200 \<Longrightarrow> waitForDriver_loop p i (Suc left)"
  by simp

lemma waitForDriver_first:
  assumes "p 0 = Inr resp" "StatusCode resp = 200"
  shows "waitForDriver p"
proof -
  have "waitForDriver_loop p 0 (Suc 49)"
    using assms by (rule waitForDriver_loop_first)
  moreover have "(50::nat) = Suc 49" by simp
  ultimately show ?thesis
    unfolding waitForDriver_def by (simp only:)
qed

text \<open>
  C1, as stated, fails. A driver that answers \<open>POST /connect\<close> with status 200 and the
  body \<open>{}\<close> leaves every field of the decoded \<open>ConnectionInfo\<close> zero; \<open>Connect\<close> stores
  it and sets the status to \<open>connected\<close> with an empty \<open>target_url\<close>.
\<close>

theorem Connect_empty_url_counterexample:
  "Status (Connect (example_world ''{}'' ConnectionInfo_zero)
             (NewState (example_config ''t1'' []))) = StatusConnected
   \<and> URL (Connection (Connect (example_world ''{}'' ConnectionInfo_zero)
             (NewState (example_config ''t1'' [])))) = ''''"
proof -
  have ready: "waitForDriver (poll (example_world ''{}'' ConnectionInfo_zero))"
    by (rule waitForDriver_first [where resp = "\<lparr>StatusCode = 200, Body = ''{}'', readable = None\<rparr>"])
       (simp_all add: example_world_def)
  show ?thesis
    using ready
    by (simp add: Connect_def NewState_def sendConnect_def example_world_def
          ConnectionInfo_zero_def StatusConnected_def StatusConnecting_def StatusDisconnected_def)
qed

text \<open>
  C1, amended. A run of \<open>Connect\<close> that takes a target to \<open>connected\<close> has stored the
  \<open>ConnectionInfo\<close> decoded from the driver's 200 answer to \<open>POST /connect\<close>, with
  \<open>control_url\<close> set to \<open>http://127.0.0.1:<port>\<close>, which is not empty. The stored
  \<open>target_url\<close> is the one of the answer: it is non-empty exactly when the driver sent a
  non-empty one.
\<close>

theorem Connect_stores_answer:
  assumes "Status s \<noteq> StatusConnected" and "Status (Connect w s) = StatusConnected"
  shows "\<exists>port resp info.
           listen w = Inr port \<and> connect_answer w = Inr resp \<and> StatusCode resp = 200
           \<and> Decode w (Body resp) = Inr info
           \<and> Connection (Connect w s) = info\<lparr>ControlURL := ''http://127.0.0.1:'' @ show_nat port\<rparr>
           \<and> ControlURL (Connection (Connect w s)) \<noteq> ''''
           \<and> URL (Connection (Connect w s)) = URL info"
proof -
  from Connect_cases [of w s] assms obtain port pid info where
    port: "listen w = Inr port" and
    info: "sendConnect (Decode w) (connect_answer w) = Inr info" and
    eq: "Connect w s = s\<lparr>Status := StatusConnected, Error := '''', cmd := Some pid,
              cancel := Some (ctx w),
              Connection := info\<lparr>ControlURL := ''http://127.0.0.1:'' @ show_nat port\<rparr>,
              LastChecked := now w\<rparr>"
    using Status_distinct by metis
  from sendConnect_Inr [OF info] obtain resp where
    resp: "connect_answer w = Inr resp" "StatusCode resp = 200" "Decode w (Body resp) = Inr info"
    by blast
  from eq have "Connection (Connect w s) = info\<lparr>ControlURL := ''http://127.0.0.1:'' @ show_nat port\<rparr>"
    by simp
  with port resp show ?thesis by auto
qed

theorem Connect_stores_answer_witness:
  "Status (NewState (example_config ''t1'' [])) \<noteq> StatusConnected
   \<and> Status (Connect
         (example_world ''{\"target_url\":\"http://127.0.0.1:9001\"}''
            \<lparr>ControlURL = '''', URL = ''http://127.0.0.1:9001'', Headers = [], Metadata = []\<rparr>)
         (NewState (example_config ''t1'' []))) = StatusConnected
   \<and> Connection (Connect
         (example_world ''{\"target_url\":\"http://127.0.0.1:9001\"}''
            \<lparr>ControlURL = '''', URL = ''http://127.0.0.1:9001'', Headers = [], Metadata = []\<rparr>)
         (NewState (example_config ''t1'' [])))
       = \<lparr>ControlURL = ''http://127.0.0.1:40000'', URL = ''http://127.0.0.1:9001'',
          Headers = [], Metadata = []\<rparr>"
proof -
  let ?info = "\<lparr>ControlURL = '''', URL = ''http://127.0.0.1:9001'', Headers = [],
                 Metadata = ([] :: nat gomap)\<rparr>"
  let ?w = "example_world ''{\"target_url\":\"http://127.0.0.1:9001\"}'' ?info"
  let ?s = "NewState (example_config ''t1'' [])"
  have ready: "waitForDriver (poll ?w)"
    by (rule waitForDriver_first [where resp = "\<lparr>StatusCode = 200, Body = ''{}'', readable = None\<rparr>"])
       (simp_all add: example_world_def)
  have h1: "Status ?s \<noteq> StatusConnected"
    by (simp add: NewState_def Status_distinct)
  have h2: "Status (Connect ?w ?s) = StatusConnected"
    using ready
    by (simp add: Connect_def NewState_def sendConnect_def example_world_def
          StatusConnected_def StatusConnecting_def StatusDisconnected_def)
  from Connect_stores_answer [OF h1 h2] obtain port resp info where
    a: "listen ?w = Inr port" "connect_answer ?w = Inr resp" "Decode ?w (Body resp) = Inr info"
       "Connection (Connect ?w ?s) = info\<lparr>ControlURL := ''http://127.0.0.1:'' @ show_nat port\<rparr>"
    by blast
  from a(1) have port: "port = 40000" by (simp add: example_world_def)
  from a(2) have "Body resp = ''{\"target_url\":\"http://127.0.0.1:9001\"}''"
    by (auto simp: example_world_def)
  with a(3) have info: "info = ?info" by (simp add: example_world_def)
  have "show_nat 40000 = ''40000''" by (simp add: show_nat.simps digit_def)
  with a(4) port info have
    "Connection (Connect ?w ?s) = \<lparr>ControlURL = ''http://127.0.0.1:40000'',
        URL = ''http://127.0.0.1:9001'', Headers = [], Metadata = []\<rparr>"
    by simp
  with h1 h2 show ?thesis by simp
qed

section \<open>Disconnect and the crash watcher\<close>

lemma Disconnect_zeroes:
  "Status (fst (Disconnect s)) = StatusDisconnected \<and> cmd (fst (Disconnect s)) = None
   \<and> cancel (fst (Disconnect s)) = None \<and> Connection (fst (Disconnect s)) = ConnectionInfo_zero"
  by (simp add: Disconnect_def)

lemma NewState_zeroes:
  "Status (NewState t) = StatusDisconnected \<and> cmd (NewState t) = None
   \<and> Connection (NewState t) = ConnectionInfo_zero"
  by (simp add: NewState_def)

text \<open>
  C9 holds for \<open>Disconnect\<close> (\<open>Disconnect_zeroes\<close>) and fails for the crash watcher: when the
  driver of a connected target exits and no context is cancelled, the watcher sets the
  status to \<open>disconnected\<close> and zeroes the connection, but leaves \<open>cmd\<close> (and \<open>cancel\<close>) as
  they were, so the state is \<open>disconnected\<close> with a process handle that is not nil.
\<close>

theorem crashWatcher_keeps_cmd:
  "Status s = StatusConnected \<Longrightarrow>
     Status (fst (crashWatcher False s)) = StatusDisconnected
     \<and> Connection (fst (crashWatcher False s)) = ConnectionInfo_zero
     \<and> cmd (fst (crashWatcher False s)) = cmd s
     \<and> cancel (fst (crashWatcher False s)) = cancel s"
  by (simp add: crashWatcher_def Let_def)

theorem crashWatcher_keeps_cmd_witness:
  "Status (example_connected ''http://127.0.0.1:9001'' []) = StatusConnected
   \<and> Status (fst (crashWatcher False (example_connected ''http://127.0.0.1:9001'' [])))
       = StatusDisconnected
   \<and> cmd (fst (crashWatcher False (example_connected ''http://127.0.0.1:9001'' []))) = Some 4242
   \<and> cmd (fst (crashWatcher False (example_connected ''http://127.0.0.1:9001'' []))) \<noteq> None"
proof -
  have h: "Status (example_connected ''http://127.0.0.1:9001'' []) = StatusConnected"
    by (simp add: example_connected_def)
  have c: "cmd (example_connected ''http://127.0.0.1:9001'' []) = Some 4242"
    by (simp add: example_connected_def)
  from crashWatcher_keeps_cmd [OF h] h c show ?thesis by simp
qed

section \<open>The proxy refuses\<close>

text \<open>
  C5. When the status is not \<open>connected\<close>, \<open>DoProxyRequest\<close> returns the error
  \<open>target not connected (status: <s>)\<close> with the current status, sends nothing and leaves
  the state as it was; when the status is \<open>connected\<close> and the target URL is empty, it
  returns \<open>target has no base URL\<close>, sends nothing and leaves the state as it was.
\<close>

theorem DoProxyRequest_rejects:
  "(Status s \<noteq> StatusConnected \<longrightarrow>
      DoProxyRequest n s method path body =
        (s, (None, 0, Some (''target not connected (status: '' @ Status s @ '')'')), []))
   \<and> (Status s = StatusConnected \<and> URL (Connection s) = '''' \<longrightarrow>
      DoProxyRequest n s method path body = (s, (None, 0, Some ''target has no base URL''), []))"
  by (simp add: DoProxyRequest_def Let_def)

theorem DoProxyRequest_rejects_witness:
  "Status (NewState (example_config ''t1'' [])) \<noteq> StatusConnected
   \<and> DoProxyRequest example_net (NewState (example_config ''t1'' [])) ''GET'' ''/foo'' None
       = (NewState (example_config ''t1'' []),
          (None, 0, Some ''target not connected (status: disconnected)''), [])
   \<and> Status (example_connected '''' []) = StatusConnected
   \<and> URL (Connection (example_connected '''' [])) = ''''
   \<and> DoProxyRequest example_net (example_connected '''' []) ''GET'' ''/foo'' None
       = (example_connected '''' [], (None, 0, Some ''target has no base URL''), [])"
proof -
  have h1: "Status (NewState (example_config ''t1'' [])) \<noteq> StatusConnected"
    by (simp add: NewState_def Status_distinct)
  have h2: "Status (example_connected '''' []) = StatusConnected"
    "URL (Connection (example_connected '''' [])) = ''''"
    by (simp_all add: example_connected_def)
  have st: "Status (NewState (example_config ''t1'' [])) = ''disconnected''"
    by (simp add: NewState_def StatusDisconnected_def)
  from DoProxyRequest_rejects [of "NewState (example_config ''t1'' [])" example_net "''GET''" "''/foo''" None]
    DoProxyRequest_rejects [of "example_connected '''' []" example_net "''GET''" "''/foo''" None]
    h1 h2 st
  show ?thesis by simp
qed

section \<open>The proxied request\<close>






lemma TrimSuffix_slash:
  "TrimSuffix (u @ ''/'') ''/'' = u"
  by (simp add: TrimSuffix_def)

lemma TrimSuffix_no_slash:
  assumes "u = [] \<or> last u \<noteq> CHR ''/''"
  shows "TrimSuffix u ''/'' = u"
proof (cases u rule: rev_cases)
  case Nil
  then show ?thesis by (simp add: TrimSuffix_def)
next
  case (snoc v c)
  with assms show ?thesis by (simp add: TrimSuffix_def)
qed












section \<open>Groups\<close>

lemma getTag_map_of:
  "getTag tags k d = (case map_of tags k of None \<Rightarrow> d | Some v \<Rightarrow> v)"
  by (cases tags) (simp_all add: getTag_def)

lemma keys_loop_eq:
  "keys_loop tags gb vs ps =
     (fold (\<lambda>k. AList.update k (getTag tags k ''unknown'')) gb vs,
      ps @ map (\<lambda>k. getTag tags k ''unknown'') gb)"
  by (induction gb arbitrary: vs ps) (simp_all add: Let_def)

lemma group_step_map_of:
  "map_of (group_step gb s groups) =
     (map_of groups)(group_key gb s \<mapsto>
        (case map_of groups (group_key gb s) of
           None \<Rightarrow> \<lparr>Key = group_key gb s,
                     Values = fst (keys_loop (Tags (Config s)) gb [] []),
                     Slots = [(slot_of s, snapshot s)]\<rparr>
         | Some g \<Rightarrow> g\<lparr>Slots := AList.update (slot_of s) (snapshot s) (Slots g)\<rparr>))"
  by (auto simp: group_step_def keys_loop_eq group_key_def composite_key_def Join_joined [symmetric]
        slot_of_def snapshot_def getTag_map_of map_of_map_entry update_conv' Let_def fun_eq_iff
        split: option.splits)

lemma keyed_step: "keyed groups \<Longrightarrow> keyed (group_step gb s groups)"
  unfolding keyed_def group_step_map_of by (auto split: option.splits)



lemma groups_loop_keyed: "keyed groups \<Longrightarrow> keyed (groups_loop gb states groups)"
  by (induction states arbitrary: groups) (simp_all add: keyed_step)





section \<open>The control URL in the replies\<close>

lemma names_strings [simp]: "member_names (json_strings m) = {}"
  by (auto simp: json_strings_def)

lemma names_anys [simp]: "member_names (json_anys m) = {}"
  by (auto simp: json_anys_def)

















end
